theory Spec2Isabelle
  imports
    Main
    "HOL-Library.AList"
    "HOL-Library.Char_ord"
    "HOL-Library.List_Lexorder"
    "HOL-Library.Multiset"
begin

section \<open>Values, documents and errors\<close>

text \<open>
  The router \<^verbatim>\<open>src/backend/routers/announcements.py\<close> handles Python values of three
  kinds: \<^verbatim>\<open>str\<close>, \<^verbatim>\<open>None\<close> and \<^verbatim>\<open>bson.ObjectId\<close>. A string is a list of
  bytes (its UTF-8 encoding); the order on strings is the lexicographic order of
  \<^theory_text>\<open>List_Lexorder\<close> over the byte order of \<^theory_text>\<open>Char_ord\<close>, which on UTF-8
  text is Python's code point order and MongoDB's binary string order. An ObjectId is
  its binary value, a list of bytes.
\<close>

type_synonym objectid = "nat list"

datatype pyval = PStr string | PNone | PObjectId objectid

text \<open>
  A Python \<^verbatim>\<open>dict\<close> with string keys, and a stored BSON document, is an association
  list: \<^term>\<open>map_of d k = None\<close> says that the field \<open>k\<close> is absent, which differs
  from the field being stored as \<^term>\<open>PNone\<close> (BSON null) or as the empty string.
\<close>

type_synonym document = "(string \<times> pyval) list"

text \<open>
  \<open>HTTPException status detail\<close> is what the handlers raise; the other errors are the
  Python exceptions that no handler catches (the framework answers them with status 500).
\<close>

datatype error =
    HTTPException nat string
  | KeyError string
  | TypeError
  | DuplicateKeyError

text \<open>\<^verbatim>\<open>d.get(k)\<close>: the value, or \<^verbatim>\<open>None\<close> when the key is absent.\<close>

definition dict_get :: "document \<Rightarrow> string \<Rightarrow> pyval" where
  "dict_get d k = (case map_of d k of None \<Rightarrow> PNone | Some v \<Rightarrow> v)"

text \<open>\<^verbatim>\<open>d[k]\<close>: raises \<^verbatim>\<open>KeyError\<close> when the key is absent.\<close>

definition dict_getitem :: "document \<Rightarrow> string \<Rightarrow> error + pyval" where
  "dict_getitem d k = (case map_of d k of None \<Rightarrow> Inl (KeyError k) | Some v \<Rightarrow> Inr v)"

text \<open>Truth value of a Python object in \<^verbatim>\<open>if x\<close> and \<^verbatim>\<open>x and y\<close>.\<close>

fun truthy :: "pyval \<Rightarrow> bool" where
  "truthy (PStr s) = (s \<noteq> [])"
| "truthy PNone = False"
| "truthy (PObjectId b) = True"

text \<open>
  \<^verbatim>\<open>if not teacher\<close>, \<^verbatim>\<open>if not announcement\<close>: the result of \<^verbatim>\<open>find_one\<close> is \<^verbatim>\<open>None\<close>
  or a dict, and an empty dict is false as well.
\<close>

fun py_not :: "document option \<Rightarrow> bool" where
  "py_not None = True"
| "py_not (Some d) = (d = [])"

text \<open>
  \<^verbatim>\<open>current_date < start_date\<close> and \<^verbatim>\<open>current_date <= expiration_date\<close>, the left
  operand a \<^verbatim>\<open>str\<close>: Python orders two strings and raises \<^verbatim>\<open>TypeError\<close> for a string
  against \<^verbatim>\<open>None\<close> or an ObjectId.
\<close>

fun str_lt :: "string \<Rightarrow> pyval \<Rightarrow> error + bool" where
  "str_lt a (PStr b) = Inr (a < b)"
| "str_lt a PNone = Inl TypeError"
| "str_lt a (PObjectId b) = Inl TypeError"

fun str_le :: "string \<Rightarrow> pyval \<Rightarrow> error + bool" where
  "str_le a (PStr b) = Inr (a \<le> b)"
| "str_le a PNone = Inl TypeError"
| "str_le a (PObjectId b) = Inl TypeError"

text \<open>A parameter declared \<^verbatim>\<open>start_date: str = Query(None)\<close> as a Python value.\<close>

fun opt_val :: "string option \<Rightarrow> pyval" where
  "opt_val None = PNone"
| "opt_val (Some s) = PStr s"

subsection \<open>ObjectId\<close>

definition is_digit :: "char \<Rightarrow> bool" where
  "is_digit c = (CHR ''0'' \<le> c \<and> c \<le> CHR ''9'')"

definition digit_val :: "char \<Rightarrow> nat" where
  "digit_val c = of_char c - 48"

text \<open>The value of a hexadecimal digit, in either case.\<close>

definition hex_val :: "char \<Rightarrow> nat option" where
  "hex_val c =
     (if is_digit c then Some (digit_val c)
      else if CHR ''a'' \<le> c \<and> c \<le> CHR ''f'' then Some (of_char c - 87)
      else if CHR ''A'' \<le> c \<and> c \<le> CHR ''F'' then Some (of_char c - 55)
      else None)"

text \<open>ASCII white space: space, and the control characters 9 to 13.\<close>

definition is_space :: "char \<Rightarrow> bool" where
  "is_space c = (c = CHR '' '' \<or> (9 \<le> (of_char c :: nat) \<and> (of_char c :: nat) \<le> 13))"

text \<open>
  \<^verbatim>\<open>bytes.fromhex\<close>: pairs of hexadecimal digits, white space skipped before each
  pair; \<^verbatim>\<open>ValueError\<close> (here \<^term>\<open>None\<close>) on anything else.
\<close>

fun fromhex :: "string \<Rightarrow> nat list option" where
  "fromhex [] = Some []"
| "fromhex [c] = (if is_space c then Some [] else None)"
| "fromhex (c # d # cs) =
     (if is_space c then fromhex (d # cs)
      else (case (hex_val c, hex_val d) of
              (Some h, Some l) \<Rightarrow> map_option ((#) (16 * h + l)) (fromhex cs)
            | _ \<Rightarrow> None))"

text \<open>
  \<^verbatim>\<open>ObjectId(announcement_id)\<close> for a \<^verbatim>\<open>str\<close> argument: the string has length 24 and
  \<^verbatim>\<open>bytes.fromhex\<close> accepts it; \<^verbatim>\<open>InvalidId\<close> (here \<^term>\<open>None\<close>) otherwise.
\<close>

definition ObjectId :: "string \<Rightarrow> objectid option" where
  "ObjectId oid = (if length oid = 24 then fromhex oid else None)"

definition hex_digit :: "nat \<Rightarrow> char" where
  "hex_digit n = (if n < 10 then char_of (48 + n) else char_of (87 + n))"

text \<open>\<^verbatim>\<open>str(oid)\<close> of an ObjectId: its bytes in lower-case hexadecimal.\<close>

definition hexlify :: "nat list \<Rightarrow> string" where
  "hexlify bs = concat (map (\<lambda>b. [hex_digit (b div 16 mod 16), hex_digit (b mod 16)]) bs)"

text \<open>\<^verbatim>\<open>str(x)\<close>.\<close>

fun py_str :: "pyval \<Rightarrow> string" where
  "py_str (PStr s) = s"
| "py_str PNone = ''None''"
| "py_str (PObjectId b) = hexlify b"

subsection \<open>Parsing a date\<close>

text \<open>
  \<^verbatim>\<open>datetime.strptime(s, "%Y-%m-%d")\<close>. The format is matched as the regular expression
  \<^verbatim>\<open>(\d\d\d\d)-(1[0-2]|0[1-9]|[1-9])-(3[0-1]|[1-2]\d|0[1-9]|[1-9]| [1-9])\<close>, the whole
  string must be consumed, and the three numbers must be a date of the calendar
  (year at least 1, the day within the month). Digits are the ASCII digits.
\<close>

definition is_digit19 :: "char \<Rightarrow> bool" where
  "is_digit19 c = (CHR ''1'' \<le> c \<and> c \<le> CHR ''9'')"

text \<open>The group \<^verbatim>\<open>1[0-2]|0[1-9]|[1-9]\<close> of \<^verbatim>\<open>%m\<close>.\<close>

fun re_m :: "string \<Rightarrow> bool" where
  "re_m [a] = is_digit19 a"
| "re_m [a, b] =
     ((a = CHR ''1'' \<and> CHR ''0'' \<le> b \<and> b \<le> CHR ''2'') \<or> (a = CHR ''0'' \<and> is_digit19 b))"
| "re_m s = False"

text \<open>The group \<^verbatim>\<open>3[0-1]|[1-2]\d|0[1-9]|[1-9]| [1-9]\<close> of \<^verbatim>\<open>%d\<close>.\<close>

fun re_d :: "string \<Rightarrow> bool" where
  "re_d [a] = is_digit19 a"
| "re_d [a, b] =
     ((a = CHR ''3'' \<and> CHR ''0'' \<le> b \<and> b \<le> CHR ''1'')
      \<or> (CHR ''1'' \<le> a \<and> a \<le> CHR ''2'' \<and> is_digit b)
      \<or> (a = CHR ''0'' \<and> is_digit19 b)
      \<or> (a = CHR '' '' \<and> is_digit19 b))"
| "re_d s = False"

text \<open>\<^verbatim>\<open>int(s)\<close> on a matched group: leading blanks are stripped.\<close>

definition py_int :: "string \<Rightarrow> nat" where
  "py_int s = foldl (\<lambda>n c. 10 * n + digit_val c) 0 (dropWhile (\<lambda>c. c = CHR '' '') s)"

definition is_leap :: "nat \<Rightarrow> bool" where
  "is_leap y = (y mod 4 = 0 \<and> (y mod 100 \<noteq> 0 \<or> y mod 400 = 0))"

definition days_in_month :: "nat \<Rightarrow> nat \<Rightarrow> nat" where
  "days_in_month y m =
     (if m = 2 then (if is_leap y then 29 else 28)
      else if m = 4 \<or> m = 6 \<or> m = 9 \<or> m = 11 then 30
      else 31)"

text \<open>
  The result is the date (year, month, day), or \<^term>\<open>None\<close> where Python raises
  \<^verbatim>\<open>ValueError\<close>. The month group is followed by \<^verbatim>\<open>-\<close> and holds none, so it is
  the text up to the next \<^verbatim>\<open>-\<close>; the day group is the rest of the string.
\<close>

definition strptime_Ymd :: "string \<Rightarrow> (nat \<times> nat \<times> nat) option" where
  "strptime_Ymd data_string =
     (let Y = take 4 data_string;
          r1 = drop 4 data_string;
          m = takeWhile (\<lambda>c. c \<noteq> CHR ''-'') (drop 1 r1);
          r2 = drop (length m) (drop 1 r1);
          d = drop 1 r2
      in if length Y = 4 \<and> list_all is_digit Y \<and> take 1 r1 = ''-''
            \<and> re_m m \<and> take 1 r2 = ''-'' \<and> re_d d
         then (let year = py_int Y; month = py_int m; day = py_int d
               in if 1 \<le> year \<and> day \<le> days_in_month year month
                  then Some (year, month, day) else None)
         else None)"

section \<open>The document store\<close>

text \<open>
  The two collections of \<^verbatim>\<open>..database\<close>, with MongoDB's operations as the router
  calls them: every filter is \<^verbatim>\<open>{"_id": v}\<close>, and a collection is the list of its
  documents in the order \<^verbatim>\<open>find()\<close> yields them.
\<close>

record db =
  announcements_collection :: "document list"
  teachers_collection :: "document list"

text \<open>\<^verbatim>\<open>collection.find()\<close>.\<close>

definition find_all :: "document list \<Rightarrow> document list" where
  "find_all c = c"

text \<open>\<^verbatim>\<open>collection.find_one({"_id": v})\<close>.\<close>

definition find_one :: "pyval \<Rightarrow> document list \<Rightarrow> document option" where
  "find_one v c = find (\<lambda>d. map_of d ''_id'' = Some v) c"

text \<open>
  MongoDB's order of values in a sort, ascending: null and missing fields first, then
  strings in binary order, then ObjectIds in the order of their bytes.
\<close>

fun bson_le :: "pyval option \<Rightarrow> pyval option \<Rightarrow> bool" where
  "bson_le (Some (PStr a)) (Some (PStr b)) = (a \<le> b)"
| "bson_le (Some (PStr a)) (Some (PObjectId b)) = True"
| "bson_le (Some (PStr a)) _ = False"
| "bson_le (Some (PObjectId a)) (Some (PObjectId b)) = (a \<le> b)"
| "bson_le (Some (PObjectId a)) _ = False"
| "bson_le _ _ = True"

text \<open>
  \<^verbatim>\<open>cursor.sort(key, -1)\<close>: descending by the field, as an insertion sort (documents
  with equal keys keep the order of the collection; MongoDB promises no order there).
\<close>

fun insert_desc :: "string \<Rightarrow> document \<Rightarrow> document list \<Rightarrow> document list" where
  "insert_desc key d [] = [d]"
| "insert_desc key d (x # xs) =
     (if bson_le (map_of x key) (map_of d key) then d # x # xs
      else x # insert_desc key d xs)"

definition sort_desc :: "string \<Rightarrow> document list \<Rightarrow> document list" where
  "sort_desc key c = foldr (insert_desc key) c []"

text \<open>
  \<^verbatim>\<open>collection.insert_one(doc)\<close> for a document without \<^verbatim>\<open>_id\<close>: the driver adds the
  ObjectId it generates (the argument \<open>new_id\<close>), and the store refuses an \<^verbatim>\<open>_id\<close>
  it already holds. The result is \<^verbatim>\<open>inserted_id\<close> and the new collection.
\<close>

definition insert_one ::
  "objectid \<Rightarrow> document \<Rightarrow> document list \<Rightarrow> error + (pyval \<times> document list)" where
  "insert_one new_id doc c =
     (if find_one (PObjectId new_id) c \<noteq> None then Inl DuplicateKeyError
      else Inr (PObjectId new_id, c @ [(''_id'', PObjectId new_id) # doc]))"

record update_result =
  matched_count :: nat
  modified_count :: nat

text \<open>
  \<^verbatim>\<open>collection.update_one({"_id": v}, update)\<close>: the first document with that
  \<^verbatim>\<open>_id\<close> is replaced by \<open>update\<close> of it; \<^verbatim>\<open>modified_count\<close> counts a document
  only when the update changed it.
\<close>

fun update_one ::
  "pyval \<Rightarrow> (document \<Rightarrow> document) \<Rightarrow> document list \<Rightarrow> update_result \<times> document list" where
  "update_one v upd [] = (\<lparr>matched_count = 0, modified_count = 0\<rparr>, [])"
| "update_one v upd (d # ds) =
     (if map_of d ''_id'' = Some v
      then (\<lparr>matched_count = 1, modified_count = (if upd d = d then 0 else 1)\<rparr>, upd d # ds)
      else (fst (update_one v upd ds), d # snd (update_one v upd ds)))"

text \<open>The update \<^verbatim>\<open>{"$unset": {key: ""}}\<close>.\<close>

definition unset_field :: "string \<Rightarrow> document \<Rightarrow> document" where
  "unset_field key d = AList.delete key d"

text \<open>The update \<^verbatim>\<open>{"$set": update_doc}\<close>.\<close>

definition set_fields :: "document \<Rightarrow> document \<Rightarrow> document" where
  "set_fields update_doc d = foldl (\<lambda>acc (k, v). AList.update k v acc) d update_doc"

text \<open>\<^verbatim>\<open>collection.delete_one({"_id": v})\<close>: \<^verbatim>\<open>deleted_count\<close> and the new collection.\<close>

fun delete_one :: "pyval \<Rightarrow> document list \<Rightarrow> nat \<times> document list" where
  "delete_one v [] = (0, [])"
| "delete_one v (d # ds) =
     (if map_of d ''_id'' = Some v then (1, ds)
      else (fst (delete_one v ds), d # snd (delete_one v ds)))"

section \<open>The endpoints\<close>

text \<open>
  The dict both listing endpoints build from a stored announcement:
  \<^verbatim>\<open>announcement["_id"]\<close>, \<^verbatim>\<open>["message"]\<close> and \<^verbatim>\<open>["expiration_date"]\<close> raise
  \<^verbatim>\<open>KeyError\<close> on a missing field, \<^verbatim>\<open>.get\<close> gives \<^verbatim>\<open>None\<close>.
\<close>

definition announcement_dict :: "document \<Rightarrow> error + document" where
  "announcement_dict announcement =
     (case dict_getitem announcement ''_id'' of
        Inl e \<Rightarrow> Inl e
      | Inr oid \<Rightarrow>
     (case dict_getitem announcement ''message'' of
        Inl e \<Rightarrow> Inl e
      | Inr message \<Rightarrow>
     (case dict_getitem announcement ''expiration_date'' of
        Inl e \<Rightarrow> Inl e
      | Inr expiration_date \<Rightarrow>
          Inr [(''id'', PStr (py_str oid)),
               (''message'', message),
               (''start_date'', dict_get announcement ''start_date''),
               (''expiration_date'', expiration_date),
               (''created_by'', dict_get announcement ''created_by'')])))"

text \<open>
  The loop of \<^verbatim>\<open>get_announcements\<close> over the cursor, \<open>announcements\<close> the list built
  so far.
\<close>

fun get_announcements_loop ::
  "string \<Rightarrow> document list \<Rightarrow> document list \<Rightarrow> error + document list" where
  "get_announcements_loop current_date [] announcements = Inr announcements"
| "get_announcements_loop current_date (announcement # rest) announcements =
     (let start_date = dict_get announcement ''start_date'';
          expiration_date = dict_get announcement ''expiration_date''
      in case (if truthy start_date then str_lt current_date start_date else Inr False) of
           Inl e \<Rightarrow> Inl e
         | Inr True \<Rightarrow> get_announcements_loop current_date rest announcements
         | Inr False \<Rightarrow>
             (case str_le current_date expiration_date of
                Inl e \<Rightarrow> Inl e
              | Inr False \<Rightarrow> get_announcements_loop current_date rest announcements
              | Inr True \<Rightarrow>
                  (case announcement_dict announcement of
                     Inl e \<Rightarrow> Inl e
                   | Inr a \<Rightarrow>
                       get_announcements_loop current_date rest (announcements @ [a]))))"

text \<open>
  \<^verbatim>\<open>GET /announcements\<close>. \<open>current_date\<close> is
  \<^verbatim>\<open>datetime.now().strftime("%Y-%m-%d")\<close>, the system date as a string.
\<close>

definition get_announcements :: "string \<Rightarrow> db \<Rightarrow> error + document list" where
  "get_announcements current_date s =
     get_announcements_loop current_date (find_all (announcements_collection s)) []"

fun get_all_announcements_loop :: "document list \<Rightarrow> document list \<Rightarrow> error + document list" where
  "get_all_announcements_loop [] announcements = Inr announcements"
| "get_all_announcements_loop (announcement # rest) announcements =
     (case announcement_dict announcement of
        Inl e \<Rightarrow> Inl e
      | Inr a \<Rightarrow> get_all_announcements_loop rest (announcements @ [a]))"

text \<open>\<^verbatim>\<open>GET /announcements/all\<close>.\<close>

definition get_all_announcements :: "string \<Rightarrow> db \<Rightarrow> error + document list" where
  "get_all_announcements teacher_username s =
     (let teacher = find_one (PStr teacher_username) (teachers_collection s)
      in if py_not teacher then Inl (HTTPException 401 ''Authentication required'')
         else get_all_announcements_loop
                (sort_desc ''expiration_date'' (find_all (announcements_collection s))) [])"

text \<open>
  The \<^verbatim>\<open>try\<close> block of \<^verbatim>\<open>create_announcement\<close> and \<^verbatim>\<open>update_announcement\<close> that
  validates the dates: true when no \<^verbatim>\<open>ValueError\<close> is raised.
\<close>

definition dates_parse :: "string \<Rightarrow> string option \<Rightarrow> bool" where
  "dates_parse expiration_date start_date =
     (strptime_Ymd expiration_date \<noteq> None
      \<and> (case start_date of
           None \<Rightarrow> True
         | Some sd \<Rightarrow> (if truthy (PStr sd) then strptime_Ymd sd \<noteq> None else True)))"

text \<open>
  \<^verbatim>\<open>POST /announcements\<close>. \<open>new_id\<close> is the ObjectId the driver generates for the
  insert. The result is the response or the error, and the store afterwards.
\<close>

definition create_announcement ::
  "objectid \<Rightarrow> string \<Rightarrow> string \<Rightarrow> string \<Rightarrow> string option \<Rightarrow> db \<Rightarrow> (error + document) \<times> db" where
  "create_announcement new_id message expiration_date teacher_username start_date s =
     (let teacher = find_one (PStr teacher_username) (teachers_collection s)
      in if py_not teacher then (Inl (HTTPException 401 ''Authentication required''), s)
         else if \<not> dates_parse expiration_date start_date
         then (Inl (HTTPException 400 ''Invalid date format. Use YYYY-MM-DD''), s)
         else
           (let announcement_doc =
                  [(''message'', PStr message),
                   (''expiration_date'', PStr expiration_date),
                   (''created_by'', PStr teacher_username)];
                announcement_doc =
                  (if truthy (opt_val start_date)
                   then AList.update ''start_date'' (opt_val start_date) announcement_doc
                   else announcement_doc)
            in case insert_one new_id announcement_doc (announcements_collection s) of
                 Inl e \<Rightarrow> (Inl e, s)
               | Inr (inserted_id, c) \<Rightarrow>
                   (Inr [(''id'', PStr (py_str inserted_id)),
                         (''message'', PStr message),
                         (''start_date'', opt_val start_date),
                         (''expiration_date'', PStr expiration_date),
                         (''created_by'', PStr teacher_username)],
                    s\<lparr>announcements_collection := c\<rparr>)))"

text \<open>\<^verbatim>\<open>PUT /announcements/{announcement_id}\<close>.\<close>

definition update_announcement ::
  "string \<Rightarrow> string \<Rightarrow> string \<Rightarrow> string \<Rightarrow> string option \<Rightarrow> db \<Rightarrow> (error + document) \<times> db" where
  "update_announcement announcement_id message expiration_date teacher_username start_date s =
     (let teacher = find_one (PStr teacher_username) (teachers_collection s)
      in if py_not teacher then (Inl (HTTPException 401 ''Authentication required''), s)
         else
           (case ObjectId announcement_id of
              None \<Rightarrow> (Inl (HTTPException 400 ''Invalid announcement ID''), s)
            | Some obj_id \<Rightarrow>
                (let announcement = find_one (PObjectId obj_id) (announcements_collection s)
                 in if py_not announcement
                    then (Inl (HTTPException 404 ''Announcement not found''), s)
                    else if \<not> dates_parse expiration_date start_date
                    then (Inl (HTTPException 400 ''Invalid date format. Use YYYY-MM-DD''), s)
                    else
                      (let update_doc =
                             [(''message'', PStr message),
                              (''expiration_date'', PStr expiration_date)];
                           update_doc =
                             (if truthy (opt_val start_date)
                              then AList.update ''start_date'' (opt_val start_date) update_doc
                              else update_doc);
                           c1 =
                             (if truthy (opt_val start_date) then announcements_collection s
                              else snd (update_one (PObjectId obj_id)
                                          (unset_field ''start_date'')
                                          (announcements_collection s)));
                           (result, c2) =
                             update_one (PObjectId obj_id) (set_fields update_doc) c1;
                           s2 = s\<lparr>announcements_collection := c2\<rparr>
                       in if modified_count result = 0 \<and> matched_count result = 0
                          then (Inl (HTTPException 500 ''Failed to update announcement''), s2)
                          else
                            (Inr [(''id'', PStr announcement_id),
                                  (''message'', PStr message),
                                  (''start_date'', opt_val start_date),
                                  (''expiration_date'', PStr expiration_date),
                                  (''created_by'',
                                     dict_get (case announcement of Some a \<Rightarrow> a | None \<Rightarrow> [])
                                       ''created_by'')],
                             s2)))))"

text \<open>\<^verbatim>\<open>DELETE /announcements/{announcement_id}\<close>.\<close>

definition delete_announcement :: "string \<Rightarrow> string \<Rightarrow> db \<Rightarrow> (error + document) \<times> db" where
  "delete_announcement announcement_id teacher_username s =
     (let teacher = find_one (PStr teacher_username) (teachers_collection s)
      in if py_not teacher then (Inl (HTTPException 401 ''Authentication required''), s)
         else
           (case ObjectId announcement_id of
              None \<Rightarrow> (Inl (HTTPException 400 ''Invalid announcement ID''), s)
            | Some obj_id \<Rightarrow>
                (let (deleted_count, c) =
                       delete_one (PObjectId obj_id) (announcements_collection s)
                 in if deleted_count = 0
                    then (Inl (HTTPException 404 ''Announcement not found''), s)
                    else (Inr [(''message'', PStr ''Announcement deleted successfully'')],
                          s\<lparr>announcements_collection := c\<rparr>))))"

section \<open>The data model and the words of the specification\<close>

text \<open>
  The stored announcement of the data model: an \<^verbatim>\<open>_id\<close> the store assigned, a
  \<^verbatim>\<open>message\<close> and an \<^verbatim>\<open>expiration_date\<close> that are strings, and a \<^verbatim>\<open>start_date\<close>
  that is absent or a string. Nothing is asked of \<^verbatim>\<open>created_by\<close>.
\<close>

definition is_str :: "pyval option \<Rightarrow> bool" where
  "is_str v = (case v of Some (PStr s) \<Rightarrow> True | _ \<Rightarrow> False)"

definition wf_announcement :: "document \<Rightarrow> bool" where
  "wf_announcement a =
     ((case map_of a ''_id'' of Some (PObjectId i) \<Rightarrow> True | _ \<Rightarrow> False)
      \<and> is_str (map_of a ''message'')
      \<and> is_str (map_of a ''expiration_date'')
      \<and> (map_of a ''start_date'' = None \<or> is_str (map_of a ''start_date'')))"

text \<open>
  The window of the specification, in its words: include the announcement iff
  \<^verbatim>\<open>start_date\<close> is absent or \<open>today \<ge> start_date\<close>, and \<open>today \<le> expiration_date\<close>,
  both comparisons lexicographic on the strings.
\<close>

definition is_active :: "string \<Rightarrow> document \<Rightarrow> bool" where
  "is_active today a =
     ((map_of a ''start_date'' = None
       \<or> (case map_of a ''start_date'' of Some (PStr start_date) \<Rightarrow> today \<ge> start_date | _ \<Rightarrow> False))
      \<and> (case map_of a ''expiration_date'' of
           Some (PStr expiration_date) \<Rightarrow> today \<le> expiration_date
         | _ \<Rightarrow> False))"

text \<open>
  The record a listing returns for a stored announcement: \<^verbatim>\<open>id\<close> (the \<^verbatim>\<open>_id\<close> as a
  string), \<^verbatim>\<open>message\<close>, \<^verbatim>\<open>start_date\<close> (null when absent), \<^verbatim>\<open>expiration_date\<close>
  and \<^verbatim>\<open>created_by\<close>.
\<close>

definition response_record :: "document \<Rightarrow> document" where
  "response_record a =
     [(''id'', PStr (py_str (dict_get a ''_id''))),
      (''message'', dict_get a ''message''),
      (''start_date'', dict_get a ''start_date''),
      (''expiration_date'', dict_get a ''expiration_date''),
      (''created_by'', dict_get a ''created_by'')]"

text \<open>
  Two returned records in descending order of \<^verbatim>\<open>expiration_date\<close>, both dates strings.
\<close>

definition expiration_desc :: "document \<Rightarrow> document \<Rightarrow> bool" where
  "expiration_desc a b =
     (case (map_of a ''expiration_date'', map_of b ''expiration_date'') of
        (Some (PStr x), Some (PStr y)) \<Rightarrow> y \<le> x
      | _ \<Rightarrow> False)"

text \<open>The username resolves to an existing teacher record.\<close>

definition teacher_exists :: "string \<Rightarrow> db \<Rightarrow> bool" where
  "teacher_exists teacher_username s =
     list_ex (\<lambda>t. map_of t ''_id'' = Some (PStr teacher_username)) (teachers_collection s)"

text \<open>The store keeps the \<^verbatim>\<open>_id\<close> of a collection unique.\<close>

definition unique_ids :: "document list \<Rightarrow> bool" where
  "unique_ids c = distinct (map (\<lambda>d. map_of d ''_id'') c)"

text \<open>The invariant of the store: every announcement is well formed, and no two share an
  \<^verbatim>\<open>_id\<close>.\<close>

definition store_ok :: "db \<Rightarrow> bool" where
  "store_ok s =
     (list_all wf_announcement (announcements_collection s)
      \<and> unique_ids (announcements_collection s))"

text \<open>The document a successful \<^verbatim>\<open>POST\<close> stores: the \<^verbatim>\<open>_id\<close> of the driver, then
  \<^verbatim>\<open>announcement_doc\<close>.\<close>

definition new_announcement :: "objectid \<Rightarrow> string \<Rightarrow> string \<Rightarrow> string \<Rightarrow> string option \<Rightarrow> document" where
  "new_announcement new_id m e u sd =
     (''_id'', PObjectId new_id) #
     [(''message'', PStr m), (''expiration_date'', PStr e), (''created_by'', PStr u)] @
     (if truthy (opt_val sd) then [(''start_date'', opt_val sd)] else [])"


subsection \<open>A store for the examples\<close>

text \<open>
  The scenario of the specification: one teacher \<^verbatim>\<open>t1\<close>, announcement A running from
  2024-06-01 to 2024-06-30 and announcement B from 2024-07-01 to 2024-12-31.
\<close>

definition oid_A :: objectid where
  "oid_A = [1, 2, 3, 4, 5, 6, 7, 8, 9, 10, 11, 12]"

definition oid_B :: objectid where
  "oid_B = [1, 2, 3, 4, 5, 6, 7, 8, 9, 10, 11, 13]"

definition ann_A :: document where
  "ann_A =
     [(''_id'', PObjectId oid_A), (''message'', PStr ''A''),
      (''start_date'', PStr ''2024-06-01''), (''expiration_date'', PStr ''2024-06-30''),
      (''created_by'', PStr ''t1'')]"

definition ann_B :: document where
  "ann_B =
     [(''_id'', PObjectId oid_B), (''message'', PStr ''B''),
      (''start_date'', PStr ''2024-07-01''), (''expiration_date'', PStr ''2024-12-31''),
      (''created_by'', PStr ''t1'')]"

definition example_db :: db where
  "example_db =
     \<lparr>announcements_collection = [ann_A, ann_B],
      teachers_collection = [[(''_id'', PStr ''t1'')]]\<rparr>"

text \<open>An ObjectId that the example store does not hold, and identifiers as a client sends
  them: the one of announcement A in upper case, and the one of \<open>oid_C\<close>.\<close>

definition oid_C :: objectid where
  "oid_C = [80, 127, 31, 119, 188, 248, 108, 215, 153, 67, 144, 17]"

definition aid_A :: string where
  "aid_A = ''0102030405060708090A0B0C''"

definition aid_C :: string where
  "aid_C = ''507f1f77bcf86cd799439011''"

section \<open>Properties\<close>

subsection \<open>Listing the active announcements\<close>

lemma is_strE: "is_str v \<Longrightarrow> \<exists>s. v = Some (PStr s)"
  by (auto simp: is_str_def split: option.splits pyval.splits)

lemma announcement_dict_wf:
  assumes "wf_announcement a"
  shows "announcement_dict a = Inr (response_record a)"
proof -
  from assms obtain i m e where
    "map_of a ''_id'' = Some (PObjectId i)" "map_of a ''message'' = Some (PStr m)"
    "map_of a ''expiration_date'' = Some (PStr e)"
    by (auto simp: wf_announcement_def dest!: is_strE split: option.splits pyval.splits)
  then show ?thesis
    by (simp add: announcement_dict_def response_record_def dict_getitem_def dict_get_def)
qed

lemma loop_step_wf:
  assumes "wf_announcement a"
  shows "get_announcements_loop today (a # rest) acc =
           get_announcements_loop today rest
             (if is_active today a then acc @ [response_record a] else acc)"
proof -
  from assms obtain e where e: "map_of a ''expiration_date'' = Some (PStr e)"
    by (auto simp: wf_announcement_def dest!: is_strE)
  from assms consider "map_of a ''start_date'' = None"
    | sd where "map_of a ''start_date'' = Some (PStr sd)"
    by (auto simp: wf_announcement_def dest!: is_strE)
  then show ?thesis
  proof cases
    case 1
    with e assms show ?thesis
      by (cases "today \<le> e") (simp_all add: dict_get_def is_active_def announcement_dict_wf)
  next
    case 2
    with e assms show ?thesis
      by (cases "sd = []"; cases "today < sd"; cases "today \<le> e")
         (auto simp: dict_get_def is_active_def announcement_dict_wf)
  qed
qed

lemma get_announcements_loop_wf:
  "list_all wf_announcement xs \<Longrightarrow>
     get_announcements_loop today xs acc =
       Inr (acc @ map response_record (filter (is_active today) xs))"
proof (induction xs arbitrary: acc)
  case Nil
  then show ?case by simp
next
  case (Cons a xs)
  then have "wf_announcement a" "list_all wf_announcement xs" by simp_all
  then show ?case
    using Cons.IH by (simp only: loop_step_wf) simp
qed

text \<open>
  C1. On every store of well-formed announcements, \<^verbatim>\<open>GET /announcements\<close> returns, in
  the order of the store, the records of exactly those announcements whose
  \<^verbatim>\<open>start_date\<close> is absent or not after \<open>today\<close> and whose \<^verbatim>\<open>expiration_date\<close> is not
  before \<open>today\<close>, the dates compared as strings; every other announcement is left out.
\<close>

theorem get_announcements_active:
  assumes "list_all wf_announcement (announcements_collection s)"
  shows "get_announcements today s =
           Inr (map response_record (filter (is_active today) (announcements_collection s)))"
  using get_announcements_loop_wf [OF assms, of today "[]"]
  by (simp add: get_announcements_def find_all_def)


theorem get_announcements_active_witness:
  "list_all wf_announcement (announcements_collection example_db)
   \<and> get_announcements ''2024-06-15'' example_db = Inr [response_record ann_A]"
proof -
  have wf: "list_all wf_announcement (announcements_collection example_db)"
    by (simp add: example_db_def ann_A_def ann_B_def wf_announcement_def is_str_def)
  have "filter (is_active ''2024-06-15'') (announcements_collection example_db) = [ann_A]"
    by (simp add: example_db_def ann_A_def ann_B_def is_active_def)
  with get_announcements_active [OF wf, of "''2024-06-15''"] wf show ?thesis
    by simp
qed

subsection \<open>Listing all announcements\<close>

lemma find_one_Some:
  "find_one v c = Some d \<Longrightarrow> map_of d ''_id'' = Some v \<and> d \<in> set c"
  unfolding find_one_def by (induction c) (auto split: if_splits)

lemma find_one_None_iff:
  "find_one v c = None \<longleftrightarrow> \<not> list_ex (\<lambda>d. map_of d ''_id'' = Some v) c"
  unfolding find_one_def by (induction c) auto

lemma py_not_find_one: "py_not (find_one v c) \<longleftrightarrow> find_one v c = None"
proof (cases "find_one v c")
  case None
  then show ?thesis by simp
next
  case (Some d)
  then have "d \<noteq> []" by (auto dest: find_one_Some)
  with Some show ?thesis by simp
qed

lemma py_not_teacher:
  "py_not (find_one (PStr u) (teachers_collection s)) \<longleftrightarrow> \<not> teacher_exists u s"
  by (simp add: py_not_find_one find_one_None_iff teacher_exists_def)

lemma set_insert_desc: "set (insert_desc key d xs) = insert d (set xs)"
  by (induction xs) auto

lemma mset_insert_desc: "mset (insert_desc key d xs) = add_mset d (mset xs)"
  by (induction xs) auto

lemma mset_sort_desc: "mset (sort_desc key c) = mset c"
  unfolding sort_desc_def by (induction c) (simp_all add: mset_insert_desc)

lemma set_sort_desc: "set (sort_desc key c) = set c"
  using mset_sort_desc [of key c] by (metis set_mset_mset)

lemma sorted_insert_desc:
  assumes "is_str (map_of d key)" "\<forall>x\<in>set xs. is_str (map_of x key)"
    and "sorted_wrt (\<lambda>a b. bson_le (map_of b key) (map_of a key)) xs"
  shows "sorted_wrt (\<lambda>a b. bson_le (map_of b key) (map_of a key)) (insert_desc key d xs)"
  using assms(2,3)
proof (induction xs)
  case Nil
  then show ?case by simp
next
  case (Cons x xs)
  from assms(1) obtain ds where ds: "map_of d key = Some (PStr ds)" by (auto dest: is_strE)
  from Cons.prems have "is_str (map_of x key)" by simp
  then obtain xs' where xs': "map_of x key = Some (PStr xs')"
    by (auto dest: is_strE)
  show ?case
  proof (cases "bson_le (map_of x key) (map_of d key)")
    case True
    have "bson_le (map_of y key) (map_of d key)" if "y \<in> set xs" for y
    proof -
      from that Cons.prems have "is_str (map_of y key)" by simp
      then obtain ys where ys: "map_of y key = Some (PStr ys)"
        by (auto dest: is_strE)
      from that Cons.prems have "bson_le (map_of y key) (map_of x key)" by simp
      with True ds xs' ys show ?thesis by simp
    qed
    with True Cons.prems show ?thesis by simp
  next
    case False
    with ds xs' have "bson_le (map_of d key) (map_of x key)" by simp
    with False Cons show ?thesis by (simp add: set_insert_desc)
  qed
qed

lemma sorted_sort_desc:
  "\<forall>x\<in>set c. is_str (map_of x key) \<Longrightarrow>
     sorted_wrt (\<lambda>a b. bson_le (map_of b key) (map_of a key)) (sort_desc key c)"
proof (induction c)
  case Nil
  then show ?case by (simp add: sort_desc_def)
next
  case (Cons d c)
  have "is_str (map_of d key)" using Cons.prems by simp
  moreover have "\<forall>x\<in>set (sort_desc key c). is_str (map_of x key)"
    using Cons.prems by (simp add: set_sort_desc)
  moreover have "sorted_wrt (\<lambda>a b. bson_le (map_of b key) (map_of a key)) (sort_desc key c)"
    using Cons by simp
  ultimately have
    "sorted_wrt (\<lambda>a b. bson_le (map_of b key) (map_of a key)) (insert_desc key d (sort_desc key c))"
    by (rule sorted_insert_desc)
  then show ?case by (simp add: sort_desc_def)
qed

lemma get_all_announcements_loop_wf:
  "list_all wf_announcement xs \<Longrightarrow>
     get_all_announcements_loop xs acc = Inr (acc @ map response_record xs)"
  by (induction xs arbitrary: acc) (simp_all add: announcement_dict_wf)

lemma expiration_desc_response:
  assumes "wf_announcement a" "wf_announcement b"
    and "bson_le (map_of b ''expiration_date'') (map_of a ''expiration_date'')"
  shows "expiration_desc (response_record a) (response_record b)"
proof -
  from assms(1,2) obtain x y where
    "map_of a ''expiration_date'' = Some (PStr x)" "map_of b ''expiration_date'' = Some (PStr y)"
    by (auto simp: wf_announcement_def dest!: is_strE)
  with assms(3) show ?thesis
    by (simp add: expiration_desc_def response_record_def dict_get_def)
qed

text \<open>
  C2. For a known teacher and a store of well-formed announcements,
  \<^verbatim>\<open>GET /announcements/all\<close> succeeds, returns the record of every stored announcement
  (as a multiset: each one once, active or not), and the list is in descending order of
  \<^verbatim>\<open>expiration_date\<close> as strings.
\<close>

theorem get_all_announcements_sorted:
  assumes "teacher_exists teacher_username s"
    and "list_all wf_announcement (announcements_collection s)"
  shows "case get_all_announcements teacher_username s of
           Inl e \<Rightarrow> False
         | Inr rs \<Rightarrow>
             mset rs = image_mset response_record (mset (announcements_collection s))
             \<and> sorted_wrt expiration_desc rs"
proof -
  let ?c = "announcements_collection s"
  let ?sorted = "sort_desc ''expiration_date'' ?c"
  have wf: "\<forall>a\<in>set ?c. wf_announcement a"
    using assms(2) by (simp add: list_all_iff)
  then have wf_sorted: "list_all wf_announcement ?sorted"
    by (simp add: list_all_iff set_sort_desc)
  have res: "get_all_announcements teacher_username s = Inr (map response_record ?sorted)"
    using assms(1) get_all_announcements_loop_wf [OF wf_sorted, of "[]"]
    by (simp add: get_all_announcements_def py_not_teacher find_all_def)
  have "\<forall>a\<in>set ?c. is_str (map_of a ''expiration_date'')"
    using wf by (simp add: wf_announcement_def)
  then have "sorted_wrt (\<lambda>a b. bson_le (map_of b ''expiration_date'') (map_of a ''expiration_date''))
               ?sorted"
    by (rule sorted_sort_desc)
  then have "sorted_wrt (\<lambda>a b. expiration_desc (response_record a) (response_record b)) ?sorted"
    by (rule sorted_wrt_mono_rel [rotated])
       (use wf in \<open>auto simp: set_sort_desc intro: expiration_desc_response\<close>)
  then have "sorted_wrt expiration_desc (map response_record ?sorted)"
    by (simp add: sorted_wrt_map)
  moreover have "mset (map response_record ?sorted) = image_mset response_record (mset ?c)"
    by (simp add: mset_sort_desc)
  ultimately show ?thesis by (simp add: res)
qed

theorem get_all_announcements_sorted_witness:
  "teacher_exists ''t1'' example_db
   \<and> list_all wf_announcement (announcements_collection example_db)
   \<and> get_all_announcements ''t1'' example_db = Inr [response_record ann_B, response_record ann_A]
   \<and> sorted_wrt expiration_desc [response_record ann_B, response_record ann_A]"
proof -
  have t: "teacher_exists ''t1'' example_db"
    by (simp add: teacher_exists_def example_db_def)
  have wf: "list_all wf_announcement (announcements_collection example_db)"
    by (simp add: example_db_def ann_A_def ann_B_def wf_announcement_def is_str_def)
  have res: "get_all_announcements ''t1'' example_db
               = Inr [response_record ann_B, response_record ann_A]"
    by (simp add: get_all_announcements_def example_db_def find_one_def find_all_def
          sort_desc_def ann_A_def ann_B_def announcement_dict_def dict_getitem_def
          response_record_def dict_get_def)
  from get_all_announcements_sorted [OF t wf] t wf res show ?thesis
    by simp
qed

subsection \<open>The store operations\<close>

lemma map_of_unset_field:
  "map_of (unset_field k d) k' = (if k' = k then None else map_of d k')"
  by (simp add: unset_field_def AList.delete_conv)

lemma map_of_set_fields2:
  "map_of (set_fields [(k1, v1), (k2, v2)] d) k =
     (if k = k2 then Some v2 else if k = k1 then Some v1 else map_of d k)"
  by (simp add: set_fields_def AList.update_conv)

lemma map_of_set_fields3:
  "map_of (set_fields [(k1, v1), (k2, v2), (k3, v3)] d) k =
     (if k = k3 then Some v3 else if k = k2 then Some v2
      else if k = k1 then Some v1 else map_of d k)"
  by (simp add: set_fields_def AList.update_conv)

lemma map_of_set_fields_other:
  "k \<notin> fst ` set doc \<Longrightarrow> map_of (set_fields doc d) k = map_of d k"
  unfolding set_fields_def
  by (induction doc arbitrary: d) (auto simp: AList.update_conv)

lemma update_one_found:
  assumes "find_one v c = Some d" and "map_of (upd d) ''_id'' = Some v"
  shows "matched_count (fst (update_one v upd c)) = 1"
    and "find_one v (snd (update_one v upd c)) = Some (upd d)"
  using assms unfolding find_one_def
  by (induction c) (auto split: if_splits)

lemma update_one_ids:
  assumes "\<And>d. map_of (upd d) ''_id'' = map_of d ''_id''"
  shows "map (\<lambda>d. map_of d ''_id'') (snd (update_one v upd c)) = map (\<lambda>d. map_of d ''_id'') c"
  using assms by (induction c) auto

lemma update_one_list_all:
  "list_all P c \<Longrightarrow> (\<And>d. P d \<Longrightarrow> P (upd d)) \<Longrightarrow> list_all P (snd (update_one v upd c))"
  by (induction c) auto

lemma update_one_unique_ids:
  "unique_ids c \<Longrightarrow> (\<And>d. map_of (upd d) ''_id'' = map_of d ''_id'') \<Longrightarrow>
     unique_ids (snd (update_one v upd c))"
  by (simp add: unique_ids_def update_one_ids)

lemma delete_one_count:
  "fst (delete_one v c) = (if find_one v c = None then 0 else 1)"
  unfolding find_one_def by (induction c) auto

lemma delete_one_none: "find_one v c = None \<Longrightarrow> snd (delete_one v c) = c"
  unfolding find_one_def by (induction c) (auto split: if_splits)

lemma find_one_None_ids:
  "find_one v c = None \<longleftrightarrow> Some v \<notin> set (map (\<lambda>d. map_of d ''_id'') c)"
  unfolding find_one_def by (induction c) auto

lemma delete_one_gone:
  "unique_ids c \<Longrightarrow> find_one v (snd (delete_one v c)) = None"
proof (induction c)
  case Nil
  then show ?case by (simp add: find_one_def)
next
  case (Cons d ds)
  show ?case
  proof (cases "map_of d ''_id'' = Some v")
    case True
    with Cons.prems have "Some v \<notin> set (map (\<lambda>d. map_of d ''_id'') ds)"
      by (auto simp: unique_ids_def)
    with True show ?thesis by (simp add: find_one_None_ids)
  next
    case False
    with Cons show ?thesis by (simp add: unique_ids_def find_one_def)
  qed
qed

lemma delete_one_ids:
  "map (\<lambda>d. map_of d ''_id'') (snd (delete_one v c))
     = remove1 (Some v) (map (\<lambda>d. map_of d ''_id'') c)"
  by (induction c) auto

lemma delete_one_subset: "set (snd (delete_one v c)) \<subseteq> set c"
  by (induction c) auto

subsection \<open>The outcomes of an update\<close>

lemma update_doc_start:
  "sd \<noteq> [] \<Longrightarrow>
   AList.update ''start_date'' (PStr sd) [(''message'', m), (''expiration_date'', e)]
     = [(''message'', m), (''expiration_date'', e), (''start_date'', PStr sd)]"
  by simp

lemma strptime_Ymd_Nil: "strptime_Ymd [] = None"
  by (simp add: strptime_Ymd_def)




lemma update_unauthorized:
  "\<not> teacher_exists u s \<Longrightarrow>
     update_announcement aid m e u sd s =
       (Inl (HTTPException 401 ''Authentication required''), s)"
  by (simp add: update_announcement_def py_not_teacher)

lemma update_invalid_id:
  "teacher_exists u s \<Longrightarrow> ObjectId aid = None \<Longrightarrow>
     update_announcement aid m e u sd s =
       (Inl (HTTPException 400 ''Invalid announcement ID''), s)"
  by (simp add: update_announcement_def py_not_teacher)

lemma update_not_found:
  "teacher_exists u s \<Longrightarrow> ObjectId aid = Some oid \<Longrightarrow>
   find_one (PObjectId oid) (announcements_collection s) = None \<Longrightarrow>
     update_announcement aid m e u sd s =
       (Inl (HTTPException 404 ''Announcement not found''), s)"
  by (simp add: update_announcement_def py_not_teacher)

lemma update_bad_dates:
  assumes "teacher_exists u s" "ObjectId aid = Some oid"
    and "find_one (PObjectId oid) (announcements_collection s) = Some a"
    and "\<not> dates_parse e sd"
  shows "update_announcement aid m e u sd s =
           (Inl (HTTPException 400 ''Invalid date format. Use YYYY-MM-DD''), s)"
proof -
  from assms(3) have "a \<noteq> []" by (auto dest: find_one_Some)
  with assms show ?thesis
    by (simp add: update_announcement_def py_not_teacher)
qed

lemma update_announcement_clear:
  assumes t: "teacher_exists u s"
    and oid: "ObjectId aid = Some oid"
    and f: "find_one (PObjectId oid) (announcements_collection s) = Some a"
    and e: "strptime_Ymd e \<noteq> None"
    and sd: "\<not> truthy (opt_val sd)"
  shows "update_announcement aid m e u sd s =
           (Inr [(''id'', PStr aid), (''message'', PStr m), (''start_date'', opt_val sd),
                 (''expiration_date'', PStr e), (''created_by'', dict_get a ''created_by'')],
            s\<lparr>announcements_collection :=
                 snd (update_one (PObjectId oid)
                        (set_fields [(''message'', PStr m), (''expiration_date'', PStr e)])
                        (snd (update_one (PObjectId oid) (unset_field ''start_date'')
                                (announcements_collection s))))\<rparr>)"
    and "find_one (PObjectId oid)
           (snd (update_one (PObjectId oid)
                        (set_fields [(''message'', PStr m), (''expiration_date'', PStr e)])
                        (snd (update_one (PObjectId oid) (unset_field ''start_date'')
                                (announcements_collection s)))))
         = Some (set_fields [(''message'', PStr m), (''expiration_date'', PStr e)]
                   (unset_field ''start_date'' a))"
proof -
  let ?c = "announcements_collection s"
  let ?v = "PObjectId oid"
  let ?set = "set_fields [(''message'', PStr m), (''expiration_date'', PStr e)]"
  let ?c1 = "snd (update_one ?v (unset_field ''start_date'') ?c)"
  from f have id: "map_of a ''_id'' = Some ?v" by (simp add: find_one_Some)
  have id1: "map_of (unset_field ''start_date'' a) ''_id'' = Some ?v"
    by (simp add: map_of_unset_field id)
  have f1: "find_one ?v ?c1 = Some (unset_field ''start_date'' a)"
    by (rule update_one_found(2) [where upd = "unset_field ''start_date''", OF f id1])
  have id2: "map_of (?set (unset_field ''start_date'' a)) ''_id'' = Some ?v"
    by (simp add: map_of_set_fields2 id1)
  have m2: "matched_count (fst (update_one ?v ?set ?c1)) = 1"
    by (rule update_one_found(1) [where upd = ?set, OF f1 id2])
  show "find_one ?v (snd (update_one ?v ?set ?c1)) = Some (?set (unset_field ''start_date'' a))"
    by (rule update_one_found(2) [where upd = ?set, OF f1 id2])
  have dp: "dates_parse e sd"
    using e sd by (cases sd) (simp_all add: dates_parse_def)
  have nt: "\<not> py_not (find_one (PStr u) (teachers_collection s))"
    using t by (simp add: py_not_teacher)
  have na: "\<not> py_not (find_one ?v ?c)"
    using f id by auto
  show "update_announcement aid m e u sd s =
           (Inr [(''id'', PStr aid), (''message'', PStr m), (''start_date'', opt_val sd),
                 (''expiration_date'', PStr e), (''created_by'', dict_get a ''created_by'')],
            s\<lparr>announcements_collection := snd (update_one ?v ?set ?c1)\<rparr>)"
    unfolding update_announcement_def Let_def
    using nt na dp sd m2 f oid
    by (simp add: case_prod_beta)
qed

lemma update_announcement_set:
  assumes t: "teacher_exists u s"
    and oid: "ObjectId aid = Some oid"
    and f: "find_one (PObjectId oid) (announcements_collection s) = Some a"
    and e: "strptime_Ymd e \<noteq> None"
    and sd: "x \<noteq> []" "strptime_Ymd x \<noteq> None"
  shows "update_announcement aid m e u (Some x) s =
           (Inr [(''id'', PStr aid), (''message'', PStr m), (''start_date'', PStr x),
                 (''expiration_date'', PStr e), (''created_by'', dict_get a ''created_by'')],
            s\<lparr>announcements_collection :=
                 snd (update_one (PObjectId oid)
                        (set_fields [(''message'', PStr m), (''expiration_date'', PStr e),
                                     (''start_date'', PStr x)])
                        (announcements_collection s))\<rparr>)"
    and "find_one (PObjectId oid)
           (snd (update_one (PObjectId oid)
                        (set_fields [(''message'', PStr m), (''expiration_date'', PStr e),
                                     (''start_date'', PStr x)])
                        (announcements_collection s)))
         = Some (set_fields [(''message'', PStr m), (''expiration_date'', PStr e),
                             (''start_date'', PStr x)] a)"
proof -
  let ?c = "announcements_collection s"
  let ?v = "PObjectId oid"
  let ?set = "set_fields [(''message'', PStr m), (''expiration_date'', PStr e),
                          (''start_date'', PStr x)]"
  from f have id: "map_of a ''_id'' = Some ?v" by (simp add: find_one_Some)
  have id2: "map_of (?set a) ''_id'' = Some ?v"
    by (simp add: map_of_set_fields3 id)
  have m2: "matched_count (fst (update_one ?v ?set ?c)) = 1"
    by (rule update_one_found(1) [where upd = ?set, OF f id2])
  show "find_one ?v (snd (update_one ?v ?set ?c)) = Some (?set a)"
    by (rule update_one_found(2) [where upd = ?set, OF f id2])
  have dp: "dates_parse e (Some x)"
    using e sd by (simp add: dates_parse_def)
  have nt: "\<not> py_not (find_one (PStr u) (teachers_collection s))"
    using t by (simp add: py_not_teacher)
  have na: "\<not> py_not (find_one ?v ?c)"
    using f id by auto
  show "update_announcement aid m e u (Some x) s =
           (Inr [(''id'', PStr aid), (''message'', PStr m), (''start_date'', PStr x),
                 (''expiration_date'', PStr e), (''created_by'', dict_get a ''created_by'')],
            s\<lparr>announcements_collection := snd (update_one ?v ?set ?c)\<rparr>)"
    unfolding update_announcement_def Let_def
    using nt na dp sd m2 f oid
    by (simp add: case_prod_beta)
qed

lemma update_announcement_ok:
  assumes t: "teacher_exists u s"
    and oid: "ObjectId aid = Some oid"
    and f: "find_one (PObjectId oid) (announcements_collection s) = Some a"
    and dp: "dates_parse e sd"
  shows "\<exists>c2 a2.
           update_announcement aid m e u sd s =
             (Inr [(''id'', PStr aid), (''message'', PStr m), (''start_date'', opt_val sd),
                   (''expiration_date'', PStr e), (''created_by'', dict_get a ''created_by'')],
              s\<lparr>announcements_collection := c2\<rparr>)
           \<and> find_one (PObjectId oid) c2 = Some a2
           \<and> (\<forall>k. map_of a2 k =
                 (if k = ''message'' then Some (PStr m)
                  else if k = ''expiration_date'' then Some (PStr e)
                  else if k = ''start_date''
                  then (if truthy (opt_val sd) then Some (opt_val sd) else None)
                  else map_of a k))"
proof (cases "truthy (opt_val sd)")
  case True
  then obtain x where x: "sd = Some x" "x \<noteq> []" by (cases sd) auto
  with dp have e: "strptime_Ymd e \<noteq> None" and px: "strptime_Ymd x \<noteq> None"
    by (simp_all add: dates_parse_def)
  show ?thesis
    using update_announcement_set [OF t oid f e x(2) px, of m] x
    by (auto simp: map_of_set_fields3)
next
  case False
  from dp have e: "strptime_Ymd e \<noteq> None" by (simp add: dates_parse_def)
  show ?thesis
    using update_announcement_clear [OF t oid f e False, of m] False
    by (auto simp: map_of_set_fields2 map_of_unset_field)
qed

lemma update_announcement_cases:
  obtains
    (unauthorized) "\<not> teacher_exists u s"
      "update_announcement aid m e u sd s =
         (Inl (HTTPException 401 ''Authentication required''), s)"
  | (invalid_id) "teacher_exists u s" "ObjectId aid = None"
      "update_announcement aid m e u sd s =
         (Inl (HTTPException 400 ''Invalid announcement ID''), s)"
  | (not_found) oid where "teacher_exists u s" "ObjectId aid = Some oid"
      "find_one (PObjectId oid) (announcements_collection s) = None"
      "update_announcement aid m e u sd s =
         (Inl (HTTPException 404 ''Announcement not found''), s)"
  | (bad_dates) oid a where "teacher_exists u s" "ObjectId aid = Some oid"
      "find_one (PObjectId oid) (announcements_collection s) = Some a"
      "\<not> dates_parse e sd"
      "update_announcement aid m e u sd s =
         (Inl (HTTPException 400 ''Invalid date format. Use YYYY-MM-DD''), s)"
  | (ok) oid a c2 a2 where "teacher_exists u s" "ObjectId aid = Some oid"
      "find_one (PObjectId oid) (announcements_collection s) = Some a"
      "dates_parse e sd"
      "update_announcement aid m e u sd s =
         (Inr [(''id'', PStr aid), (''message'', PStr m), (''start_date'', opt_val sd),
               (''expiration_date'', PStr e), (''created_by'', dict_get a ''created_by'')],
          s\<lparr>announcements_collection := c2\<rparr>)"
      "find_one (PObjectId oid) c2 = Some a2"
      "\<And>k. map_of a2 k =
             (if k = ''message'' then Some (PStr m)
              else if k = ''expiration_date'' then Some (PStr e)
              else if k = ''start_date''
              then (if truthy (opt_val sd) then Some (opt_val sd) else None)
              else map_of a k)"
proof (cases "teacher_exists u s")
  case False
  then show ?thesis using unauthorized update_unauthorized by blast
next
  case t: True
  show ?thesis
  proof (cases "ObjectId aid")
    case None
    with t show ?thesis using invalid_id update_invalid_id by blast
  next
    case (Some oid)
    show ?thesis
    proof (cases "find_one (PObjectId oid) (announcements_collection s)")
      case None
      with t Some show ?thesis using not_found update_not_found by blast
    next
      case f: (Some a)
      show ?thesis
      proof (cases "dates_parse e sd")
        case False
        with t Some f show ?thesis using bad_dates update_bad_dates by blast
      next
        case True
        from update_announcement_ok [OF t Some f True, of m]
        obtain c2 a2 where
          "update_announcement aid m e u sd s =
             (Inr [(''id'', PStr aid), (''message'', PStr m), (''start_date'', opt_val sd),
                   (''expiration_date'', PStr e), (''created_by'', dict_get a ''created_by'')],
              s\<lparr>announcements_collection := c2\<rparr>)"
          "find_one (PObjectId oid) c2 = Some a2"
          "\<forall>k. map_of a2 k =
             (if k = ''message'' then Some (PStr m)
              else if k = ''expiration_date'' then Some (PStr e)
              else if k = ''start_date''
              then (if truthy (opt_val sd) then Some (opt_val sd) else None)
              else map_of a k)"
          by blast
        with t Some f True show ?thesis using ok by blast
      qed
    qed
  qed
qed



subsection \<open>The outcomes of a create\<close>

lemma create_unauthorized:
  "\<not> teacher_exists u s \<Longrightarrow>
     create_announcement n m e u sd s =
       (Inl (HTTPException 401 ''Authentication required''), s)"
  by (simp add: create_announcement_def py_not_teacher)

lemma create_bad_dates:
  "teacher_exists u s \<Longrightarrow> \<not> dates_parse e sd \<Longrightarrow>
     create_announcement n m e u sd s =
       (Inl (HTTPException 400 ''Invalid date format. Use YYYY-MM-DD''), s)"
  by (simp add: create_announcement_def py_not_teacher)

lemma create_duplicate:
  "teacher_exists u s \<Longrightarrow> dates_parse e sd \<Longrightarrow>
   find_one (PObjectId n) (announcements_collection s) \<noteq> None \<Longrightarrow>
     create_announcement n m e u sd s = (Inl DuplicateKeyError, s)"
  by (simp add: create_announcement_def py_not_teacher insert_one_def)

lemma create_ok:
  "teacher_exists u s \<Longrightarrow> dates_parse e sd \<Longrightarrow>
   find_one (PObjectId n) (announcements_collection s) = None \<Longrightarrow>
     create_announcement n m e u sd s =
       (Inr [(''id'', PStr (hexlify n)), (''message'', PStr m), (''start_date'', opt_val sd),
             (''expiration_date'', PStr e), (''created_by'', PStr u)],
        s\<lparr>announcements_collection :=
             announcements_collection s @ [new_announcement n m e u sd]\<rparr>)"
  by (simp add: create_announcement_def py_not_teacher insert_one_def new_announcement_def)

lemma create_announcement_cases:
  obtains
    (unauthorized) "\<not> teacher_exists u s"
      "create_announcement n m e u sd s =
         (Inl (HTTPException 401 ''Authentication required''), s)"
  | (bad_dates) "teacher_exists u s" "\<not> dates_parse e sd"
      "create_announcement n m e u sd s =
         (Inl (HTTPException 400 ''Invalid date format. Use YYYY-MM-DD''), s)"
  | (duplicate) "teacher_exists u s" "dates_parse e sd"
      "find_one (PObjectId n) (announcements_collection s) \<noteq> None"
      "create_announcement n m e u sd s = (Inl DuplicateKeyError, s)"
  | (ok) "teacher_exists u s" "dates_parse e sd"
      "find_one (PObjectId n) (announcements_collection s) = None"
      "create_announcement n m e u sd s =
         (Inr [(''id'', PStr (hexlify n)), (''message'', PStr m), (''start_date'', opt_val sd),
               (''expiration_date'', PStr e), (''created_by'', PStr u)],
          s\<lparr>announcements_collection :=
               announcements_collection s @ [new_announcement n m e u sd]\<rparr>)"
  using create_unauthorized [of u s n m e sd] create_bad_dates [of u s e sd n m]
    create_duplicate [of u s e sd n m] create_ok [of u s e sd n m]
  by (cases "teacher_exists u s"; cases "dates_parse e sd";
      cases "find_one (PObjectId n) (announcements_collection s) = None") blast+



subsection \<open>The outcomes of a delete\<close>

lemma delete_unauthorized:
  "\<not> teacher_exists u s \<Longrightarrow>
     delete_announcement aid u s = (Inl (HTTPException 401 ''Authentication required''), s)"
  by (simp add: delete_announcement_def py_not_teacher)

lemma delete_invalid_id:
  "teacher_exists u s \<Longrightarrow> ObjectId aid = None \<Longrightarrow>
     delete_announcement aid u s = (Inl (HTTPException 400 ''Invalid announcement ID''), s)"
  by (simp add: delete_announcement_def py_not_teacher)

lemma delete_not_found:
  "teacher_exists u s \<Longrightarrow> ObjectId aid = Some oid \<Longrightarrow>
   find_one (PObjectId oid) (announcements_collection s) = None \<Longrightarrow>
     delete_announcement aid u s = (Inl (HTTPException 404 ''Announcement not found''), s)"
  by (simp add: delete_announcement_def py_not_teacher case_prod_beta delete_one_count)

lemma delete_ok:
  "teacher_exists u s \<Longrightarrow> ObjectId aid = Some oid \<Longrightarrow>
   find_one (PObjectId oid) (announcements_collection s) \<noteq> None \<Longrightarrow>
     delete_announcement aid u s =
       (Inr [(''message'', PStr ''Announcement deleted successfully'')],
        s\<lparr>announcements_collection :=
             snd (delete_one (PObjectId oid) (announcements_collection s))\<rparr>)"
  by (simp add: delete_announcement_def py_not_teacher case_prod_beta delete_one_count)

lemma delete_announcement_cases:
  obtains
    (unauthorized) "\<not> teacher_exists u s"
      "delete_announcement aid u s = (Inl (HTTPException 401 ''Authentication required''), s)"
  | (invalid_id) "teacher_exists u s" "ObjectId aid = None"
      "delete_announcement aid u s = (Inl (HTTPException 400 ''Invalid announcement ID''), s)"
  | (not_found) oid where "teacher_exists u s" "ObjectId aid = Some oid"
      "find_one (PObjectId oid) (announcements_collection s) = None"
      "delete_announcement aid u s = (Inl (HTTPException 404 ''Announcement not found''), s)"
  | (ok) oid where "teacher_exists u s" "ObjectId aid = Some oid"
      "find_one (PObjectId oid) (announcements_collection s) \<noteq> None"
      "delete_announcement aid u s =
         (Inr [(''message'', PStr ''Announcement deleted successfully'')],
          s\<lparr>announcements_collection :=
               snd (delete_one (PObjectId oid) (announcements_collection s))\<rparr>)"
proof (cases "teacher_exists u s")
  case False
  then show ?thesis using unauthorized delete_unauthorized by blast
next
  case t: True
  show ?thesis
  proof (cases "ObjectId aid")
    case None
    with t show ?thesis using invalid_id delete_invalid_id by blast
  next
    case (Some oid)
    with t show ?thesis using not_found ok delete_not_found delete_ok by blast
  qed
qed

subsection \<open>The invariant of the store\<close>

lemma wf_unset_start: "wf_announcement d \<Longrightarrow> wf_announcement (unset_field ''start_date'' d)"
  by (simp add: wf_announcement_def map_of_unset_field)

lemma wf_set2:
  "wf_announcement d \<Longrightarrow>
     wf_announcement (set_fields [(''message'', PStr m), (''expiration_date'', PStr e)] d)"
  by (simp add: wf_announcement_def map_of_set_fields2 is_str_def)

lemma wf_set3:
  "wf_announcement d \<Longrightarrow>
     wf_announcement
       (set_fields [(''message'', PStr m), (''expiration_date'', PStr e),
                    (''start_date'', PStr x)] d)"
  by (simp add: wf_announcement_def map_of_set_fields3 is_str_def)

lemma create_store_ok:
  assumes "store_ok s"
  shows "store_ok (snd (create_announcement n m e u sd s))"
proof (cases rule: create_announcement_cases [of u s n m e sd])
  case ok
  have "wf_announcement (new_announcement n m e u sd)"
    by (cases sd) (simp_all add: wf_announcement_def new_announcement_def is_str_def)
  moreover have "Some (PObjectId n) \<notin> set (map (\<lambda>d. map_of d ''_id'') (announcements_collection s))"
    using ok(3) by (simp add: find_one_None_ids)
  moreover have "map_of (new_announcement n m e u sd) ''_id'' = Some (PObjectId n)"
    by (simp add: new_announcement_def)
  ultimately show ?thesis
    using assms ok(4) by (simp add: store_ok_def unique_ids_def)
qed (use assms in simp_all)

lemma update_store_ok:
  assumes "store_ok s"
  shows "store_ok (snd (update_announcement aid m e u sd s))"
proof (cases "teacher_exists u s")
  case False
  with assms show ?thesis by (simp add: update_unauthorized)
next
  case t: True
  show ?thesis
  proof (cases "ObjectId aid")
    case None
    with t assms show ?thesis by (simp add: update_invalid_id)
  next
    case (Some oid)
    show ?thesis
    proof (cases "find_one (PObjectId oid) (announcements_collection s)")
      case None
      with t Some assms show ?thesis by (simp add: update_not_found)
    next
      case f: (Some a)
      show ?thesis
      proof (cases "dates_parse e sd")
        case False
        with t Some f assms show ?thesis by (simp add: update_bad_dates)
      next
        case dp: True
        then have e: "strptime_Ymd e \<noteq> None" by (simp add: dates_parse_def)
        show ?thesis
        proof (cases "truthy (opt_val sd)")
          case True
          then obtain x where x: "sd = Some x" "x \<noteq> []" by (cases sd) auto
          with dp have px: "strptime_Ymd x \<noteq> None" by (simp add: dates_parse_def)
          show ?thesis
            using update_announcement_set(1) [OF t Some f e x(2) px, of m] x(1) assms
            by (simp add: store_ok_def update_one_list_all wf_set3 update_one_unique_ids
                  map_of_set_fields3)
        next
          case False
          show ?thesis
            using update_announcement_clear(1) [OF t Some f e False, of m] assms
            by (simp add: store_ok_def update_one_list_all wf_set2 wf_unset_start
                  update_one_unique_ids map_of_set_fields2 map_of_unset_field)
        qed
      qed
    qed
  qed
qed

lemma delete_store_ok:
  assumes "store_ok s"
  shows "store_ok (snd (delete_announcement aid u s))"
proof (cases rule: delete_announcement_cases [of u s aid])
  case (ok oid)
  have "list_all wf_announcement (snd (delete_one (PObjectId oid) (announcements_collection s)))"
    using assms delete_one_subset [of "PObjectId oid" "announcements_collection s"]
    by (auto simp: store_ok_def list_all_iff)
  moreover have "unique_ids (snd (delete_one (PObjectId oid) (announcements_collection s)))"
    using assms by (simp add: store_ok_def unique_ids_def delete_one_ids)
  ultimately show ?thesis using ok(4) by (simp add: store_ok_def)
qed (use assms in simp_all)

subsection \<open>Facts of the example store\<close>


lemma strptime_2099_01_01: "strptime_Ymd ''2099-01-01'' \<noteq> None"
  by (simp add: strptime_Ymd_def is_digit_def is_digit19_def py_int_def digit_val_def
        days_in_month_def)

lemma ObjectId_aid_A: "ObjectId aid_A = Some oid_A"
  by (simp add: ObjectId_def aid_A_def oid_A_def hex_val_def is_digit_def digit_val_def
        is_space_def)

lemma ObjectId_aid_C: "ObjectId aid_C = Some oid_C"
  by (simp add: ObjectId_def aid_C_def oid_C_def hex_val_def is_digit_def digit_val_def
        is_space_def)

lemma ObjectId_malformed: "ObjectId ''not-an-id'' = None"
  by (simp add: ObjectId_def)

lemma teacher_t1: "teacher_exists ''t1'' example_db"
  by (simp add: teacher_exists_def example_db_def)

lemma no_teacher_t2: "\<not> teacher_exists ''t2'' example_db"
  by (simp add: teacher_exists_def example_db_def)

lemma find_one_oid_A:
  "find_one (PObjectId oid_A) (announcements_collection example_db) = Some ann_A"
  by (simp add: find_one_def example_db_def ann_A_def)

lemma find_one_oid_C:
  "find_one (PObjectId oid_C) (announcements_collection example_db) = None"
  by (simp add: find_one_def example_db_def ann_A_def ann_B_def oid_A_def oid_B_def oid_C_def)

lemma unique_ids_example: "unique_ids (announcements_collection example_db)"
  by (simp add: unique_ids_def example_db_def ann_A_def ann_B_def oid_A_def oid_B_def)

lemma store_ok_example: "store_ok example_db"
  by (simp add: store_ok_def unique_ids_example)
     (simp add: example_db_def ann_A_def ann_B_def wf_announcement_def is_str_def)

subsection \<open>Updating an announcement\<close>

text \<open>
  C3. For a known teacher, an identifier of an existing announcement and dates that
  parse, the update succeeds and the stored record then has the supplied \<^verbatim>\<open>message\<close> and
  \<^verbatim>\<open>expiration_date\<close>; with \<^verbatim>\<open>start_date\<close> omitted it has no \<^verbatim>\<open>start_date\<close> field at
  all (the field is absent, not null and not empty), and with a \<^verbatim>\<open>start_date\<close> that parses
  it has that value.
\<close>

theorem update_start_date:
  assumes "teacher_exists u s"
    and "ObjectId aid = Some oid"
    and "find_one (PObjectId oid) (announcements_collection s) \<noteq> None"
    and "strptime_Ymd e \<noteq> None"
    and "case sd of None \<Rightarrow> True | Some x \<Rightarrow> strptime_Ymd x \<noteq> None"
  shows "\<exists>r s' a'.
           update_announcement aid m e u sd s = (Inr r, s')
           \<and> find_one (PObjectId oid) (announcements_collection s') = Some a'
           \<and> map_of a' ''start_date'' = map_option PStr sd
           \<and> map_of a' ''message'' = Some (PStr m)
           \<and> map_of a' ''expiration_date'' = Some (PStr e)"
proof -
  from assms(3) obtain a where
    f: "find_one (PObjectId oid) (announcements_collection s) = Some a" by auto
  have dp: "dates_parse e sd"
    using assms(4,5) by (cases sd) (simp_all add: dates_parse_def)
  have sd: "(if truthy (opt_val sd) then Some (opt_val sd) else None) = map_option PStr sd"
    using assms(5) by (cases sd) (auto simp: strptime_Ymd_Nil)
  from update_announcement_ok [OF assms(1,2) f dp, of m] sd show ?thesis
    by fastforce
qed

theorem update_start_date_witness:
  "teacher_exists ''t1'' example_db
   \<and> ObjectId aid_A = Some oid_A
   \<and> find_one (PObjectId oid_A) (announcements_collection example_db) = Some ann_A
   \<and> map_of ann_A ''start_date'' = Some (PStr ''2024-06-01'')
   \<and> strptime_Ymd ''2099-01-01'' \<noteq> None
   \<and> (\<exists>r s' a'.
         update_announcement aid_A ''M'' ''2099-01-01'' ''t1'' None example_db = (Inr r, s')
         \<and> find_one (PObjectId oid_A) (announcements_collection s') = Some a'
         \<and> map_of a' ''start_date'' = None
         \<and> map_of a' ''message'' = Some (PStr ''M'')
         \<and> map_of a' ''expiration_date'' = Some (PStr ''2099-01-01''))"
proof -
  have f: "find_one (PObjectId oid_A) (announcements_collection example_db) \<noteq> None"
    by (simp add: find_one_oid_A)
  have sd: "case None :: string option of None \<Rightarrow> True | Some x \<Rightarrow> strptime_Ymd x \<noteq> None"
    by simp
  from update_start_date [OF teacher_t1 ObjectId_aid_A f strptime_2099_01_01 sd, of "''M''"]
  show ?thesis
    using teacher_t1 ObjectId_aid_A find_one_oid_A strptime_2099_01_01
    by (simp add: ann_A_def)
qed

text \<open>
  C8. After every successful update the identifier is an ObjectId of an announcement that
  was stored; the stored record has the \<^verbatim>\<open>created_by\<close> it had before (or still none), and
  the response is the identifier as supplied, the new \<^verbatim>\<open>message\<close>, \<^verbatim>\<open>start_date\<close> and
  \<^verbatim>\<open>expiration_date\<close>, and the \<^verbatim>\<open>created_by\<close> of the original record.
\<close>

theorem update_keeps_created_by:
  assumes "update_announcement aid m e u sd s = (Inr r, s')"
  shows "\<exists>oid a a'.
           ObjectId aid = Some oid
           \<and> find_one (PObjectId oid) (announcements_collection s) = Some a
           \<and> find_one (PObjectId oid) (announcements_collection s') = Some a'
           \<and> map_of a' ''created_by'' = map_of a ''created_by''
           \<and> r = [(''id'', PStr aid), (''message'', PStr m), (''start_date'', opt_val sd),
                  (''expiration_date'', PStr e), (''created_by'', dict_get a ''created_by'')]"
proof (cases rule: update_announcement_cases [of u s aid m e sd])
  case (ok oid a c2 a2)
  with assms have "r = [(''id'', PStr aid), (''message'', PStr m), (''start_date'', opt_val sd),
                  (''expiration_date'', PStr e), (''created_by'', dict_get a ''created_by'')]"
    and "s' = s\<lparr>announcements_collection := c2\<rparr>" by simp_all
  moreover from ok(7) have "map_of a2 ''created_by'' = map_of a ''created_by''" by simp
  ultimately show ?thesis using ok(2,3,6) by simp
qed (use assms in simp_all)

theorem update_keeps_created_by_witness:
  "update_announcement aid_A ''M'' ''2099-01-01'' ''t1'' (Some ''2098-12-01'') example_db =
     (Inr [(''id'', PStr aid_A), (''message'', PStr ''M''), (''start_date'', PStr ''2098-12-01''),
           (''expiration_date'', PStr ''2099-01-01''), (''created_by'', PStr ''t1'')],
      example_db\<lparr>announcements_collection :=
        [[(''_id'', PObjectId oid_A), (''message'', PStr ''M''),
          (''start_date'', PStr ''2098-12-01''), (''expiration_date'', PStr ''2099-01-01''),
          (''created_by'', PStr ''t1'')],
         ann_B]\<rparr>)
   \<and> aid_A \<noteq> hexlify oid_A"
proof -
  have p: "strptime_Ymd ''2098-12-01'' \<noteq> None"
    by (simp add: strptime_Ymd_def is_digit_def is_digit19_def py_int_def digit_val_def
          days_in_month_def)
  have n: "''2098-12-01'' \<noteq> []" by simp
  have u: "update_announcement aid_A ''M'' ''2099-01-01'' ''t1'' (Some ''2098-12-01'') example_db =
     (Inr [(''id'', PStr aid_A), (''message'', PStr ''M''), (''start_date'', PStr ''2098-12-01''),
           (''expiration_date'', PStr ''2099-01-01''), (''created_by'', PStr ''t1'')],
      example_db\<lparr>announcements_collection :=
        [[(''_id'', PObjectId oid_A), (''message'', PStr ''M''),
          (''start_date'', PStr ''2098-12-01''), (''expiration_date'', PStr ''2099-01-01''),
          (''created_by'', PStr ''t1'')],
         ann_B]\<rparr>)"
    using update_announcement_set(1)
            [OF teacher_t1 ObjectId_aid_A find_one_oid_A strptime_2099_01_01 n p, of "''M''"]
    by (simp add: example_db_def ann_A_def set_fields_def dict_get_def)
  have h: "aid_A \<noteq> hexlify oid_A"
    by code_simp
  from update_keeps_created_by [OF u] u h show ?thesis by simp
qed

text \<open>
  C9. An update never fails with status 500, nor with an exception no handler catches: its
  errors are those of status 401, 400 and 404. The branch that raises 500 needs a
  \<^verbatim>\<open>$set\<close> update that matched nothing; where \<^verbatim>\<open>find_one\<close> has found the
  announcement and the update leaves \<^verbatim>\<open>_id\<close> alone, \<^verbatim>\<open>update_one\<close> reports one match,
  directly and after the \<^verbatim>\<open>$unset\<close> of \<^verbatim>\<open>start_date\<close>.
\<close>

theorem update_never_internal_error:
  "(case fst (update_announcement aid m e u sd s) of
      Inl (HTTPException code detail) \<Rightarrow> code = 401 \<or> code = 400 \<or> code = 404
    | Inl _ \<Rightarrow> False
    | Inr r \<Rightarrow> True)
   \<and> (find_one (PObjectId oid) c = Some a \<and> ''_id'' \<notin> fst ` set update_doc \<longrightarrow>
        matched_count (fst (update_one (PObjectId oid) (set_fields update_doc) c)) = 1
        \<and> matched_count
            (fst (update_one (PObjectId oid) (set_fields update_doc)
                    (snd (update_one (PObjectId oid) (unset_field ''start_date'') c)))) = 1)"
proof (intro conjI impI)
  show "case fst (update_announcement aid m e u sd s) of
          Inl (HTTPException code detail) \<Rightarrow> code = 401 \<or> code = 400 \<or> code = 404
        | Inl _ \<Rightarrow> False
        | Inr r \<Rightarrow> True"
    by (cases rule: update_announcement_cases [of u s aid m e sd]) simp_all
next
  assume "find_one (PObjectId oid) c = Some a \<and> ''_id'' \<notin> fst ` set update_doc"
  then have f: "find_one (PObjectId oid) c = Some a"
    and k: "''_id'' \<notin> fst ` set update_doc" by simp_all
  from f have id: "map_of a ''_id'' = Some (PObjectId oid)" by (simp add: find_one_Some)
  have id0: "map_of (set_fields update_doc a) ''_id'' = Some (PObjectId oid)"
    using k id by (simp add: map_of_set_fields_other)
  show "matched_count (fst (update_one (PObjectId oid) (set_fields update_doc) c)) = 1"
    by (rule update_one_found(1) [where upd = "set_fields update_doc", OF f id0])
  have id1: "map_of (unset_field ''start_date'' a) ''_id'' = Some (PObjectId oid)"
    by (simp add: map_of_unset_field id)
  have f1: "find_one (PObjectId oid)
              (snd (update_one (PObjectId oid) (unset_field ''start_date'') c))
            = Some (unset_field ''start_date'' a)"
    by (rule update_one_found(2) [where upd = "unset_field ''start_date''", OF f id1])
  have id2: "map_of (set_fields update_doc (unset_field ''start_date'' a)) ''_id''
               = Some (PObjectId oid)"
    using k id1 by (simp add: map_of_set_fields_other)
  show "matched_count
          (fst (update_one (PObjectId oid) (set_fields update_doc)
                  (snd (update_one (PObjectId oid) (unset_field ''start_date'') c)))) = 1"
    by (rule update_one_found(1) [where upd = "set_fields update_doc", OF f1 id2])
qed

theorem update_never_internal_error_witness:
  "find_one (PObjectId oid_A) (announcements_collection example_db) = Some ann_A
   \<and> matched_count
       (fst (update_one (PObjectId oid_A)
               (set_fields [(''message'', PStr ''M''), (''expiration_date'', PStr ''2099-01-01'')])
               (snd (update_one (PObjectId oid_A) (unset_field ''start_date'')
                       (announcements_collection example_db))))) = 1
   \<and> fst (update_announcement aid_A ''M'' ''2099-01-01'' ''t1'' None example_db)
       \<noteq> Inl (HTTPException 500 ''Failed to update announcement'')"
proof -
  have k: "''_id'' \<notin> fst ` set [(''message'', PStr ''M''), (''expiration_date'', PStr ''2099-01-01'')]"
    by simp
  from update_never_internal_error
         [of aid_A "''M''" "''2099-01-01''" "''t1''" None example_db oid_A
             "announcements_collection example_db" ann_A
             "[(''message'', PStr ''M''), (''expiration_date'', PStr ''2099-01-01'')]"]
    find_one_oid_A k
  show ?thesis
    by (auto split: sum.splits error.splits)
qed

subsection \<open>Creating an announcement\<close>

text \<open>
  C4. After every successful create the store holds exactly one more announcement, appended
  to the collection, and the teachers are untouched; the new record has \<^verbatim>\<open>created_by\<close>
  equal to the username of the teacher, who is a known one, and when \<^verbatim>\<open>start_date\<close> was
  not supplied the record has no \<^verbatim>\<open>start_date\<close> field at all.
\<close>

theorem create_stores_one_record:
  assumes "create_announcement new_id m e u sd s = (Inr r, s')"
  shows "\<exists>doc.
           announcements_collection s' = announcements_collection s @ [doc]
           \<and> teachers_collection s' = teachers_collection s
           \<and> teacher_exists u s
           \<and> map_of doc ''created_by'' = Some (PStr u)
           \<and> (sd = None \<longrightarrow> map_of doc ''start_date'' = None)"
proof (cases rule: create_announcement_cases [of u s new_id m e sd])
  case ok
  with assms have "s' = s\<lparr>announcements_collection :=
                            announcements_collection s @ [new_announcement new_id m e u sd]\<rparr>"
    by simp
  with ok(1) show ?thesis
    by (auto simp: new_announcement_def)
qed (use assms in simp_all)

theorem create_stores_one_record_witness:
  "create_announcement oid_C ''M'' ''2099-01-01'' ''t1'' None example_db =
     (Inr [(''id'', PStr (hexlify oid_C)), (''message'', PStr ''M''), (''start_date'', PNone),
           (''expiration_date'', PStr ''2099-01-01''), (''created_by'', PStr ''t1'')],
      example_db\<lparr>announcements_collection :=
        [ann_A, ann_B, new_announcement oid_C ''M'' ''2099-01-01'' ''t1'' None]\<rparr>)
   \<and> map_of (new_announcement oid_C ''M'' ''2099-01-01'' ''t1'' None) ''created_by''
       = Some (PStr ''t1'')
   \<and> map_of (new_announcement oid_C ''M'' ''2099-01-01'' ''t1'' None) ''start_date'' = None"
proof -
  have dp: "dates_parse ''2099-01-01'' None"
    using strptime_2099_01_01 by (simp add: dates_parse_def)
  have c: "create_announcement oid_C ''M'' ''2099-01-01'' ''t1'' None example_db =
     (Inr [(''id'', PStr (hexlify oid_C)), (''message'', PStr ''M''), (''start_date'', PNone),
           (''expiration_date'', PStr ''2099-01-01''), (''created_by'', PStr ''t1'')],
      example_db\<lparr>announcements_collection :=
        [ann_A, ann_B, new_announcement oid_C ''M'' ''2099-01-01'' ''t1'' None]\<rparr>)"
    using create_ok [OF teacher_t1 dp find_one_oid_C, of "''M''"]
    by (simp add: example_db_def)
  from create_stores_one_record [OF c] c show ?thesis
    by (simp add: example_db_def)
qed

subsection \<open>Rejected requests\<close>




text \<open>
  C6. When the username is not that of a teacher, the listing of all announcements, create,
  update and delete each fail with status 401, whatever the other arguments are, and the
  three that write leave the store as it was.
\<close>

theorem unknown_teacher_unauthorized:
  assumes "\<not> teacher_exists u s"
  shows "get_all_announcements u s = Inl (HTTPException 401 ''Authentication required'')
         \<and> create_announcement new_id m e u sd s =
             (Inl (HTTPException 401 ''Authentication required''), s)
         \<and> update_announcement aid m e u sd s =
             (Inl (HTTPException 401 ''Authentication required''), s)
         \<and> delete_announcement aid u s =
             (Inl (HTTPException 401 ''Authentication required''), s)"
  using assms
  by (simp add: create_unauthorized update_unauthorized delete_unauthorized
        get_all_announcements_def py_not_teacher)

theorem unknown_teacher_unauthorized_witness:
  "\<not> teacher_exists ''t2'' example_db
   \<and> get_all_announcements ''t2'' example_db
       = Inl (HTTPException 401 ''Authentication required'')
   \<and> create_announcement oid_C ''M'' ''2024-13-40'' ''t2'' (Some ''tomorrow'') example_db
       = (Inl (HTTPException 401 ''Authentication required''), example_db)
   \<and> update_announcement ''not-an-id'' ''M'' ''2024-13-40'' ''t2'' (Some ''tomorrow'') example_db
       = (Inl (HTTPException 401 ''Authentication required''), example_db)
   \<and> delete_announcement ''not-an-id'' ''t2'' example_db
       = (Inl (HTTPException 401 ''Authentication required''), example_db)"
  using unknown_teacher_unauthorized [OF no_teacher_t2] no_teacher_t2
  by simp

text \<open>
  C7. For a known teacher, update and delete fail with status 400 when the identifier is
  not an ObjectId, and with status 404 (the store unchanged) when it is one and no
  announcement has it; and in a store with unique identifiers, after a successful delete
  the same delete fails with status 404.
\<close>

theorem invalid_id_and_not_found:
  assumes "teacher_exists u s"
  shows "(ObjectId aid = None \<longrightarrow>
            update_announcement aid m e u sd s =
              (Inl (HTTPException 400 ''Invalid announcement ID''), s)
            \<and> delete_announcement aid u s =
                (Inl (HTTPException 400 ''Invalid announcement ID''), s))
         \<and> (\<forall>oid. ObjectId aid = Some oid
                \<and> find_one (PObjectId oid) (announcements_collection s) = None \<longrightarrow>
            update_announcement aid m e u sd s =
              (Inl (HTTPException 404 ''Announcement not found''), s)
            \<and> delete_announcement aid u s =
                (Inl (HTTPException 404 ''Announcement not found''), s))
         \<and> (\<forall>r s'. unique_ids (announcements_collection s)
                \<and> delete_announcement aid u s = (Inr r, s') \<longrightarrow>
            delete_announcement aid u s' =
              (Inl (HTTPException 404 ''Announcement not found''), s'))"
proof (intro conjI allI impI)
  fix r s'
  assume a: "unique_ids (announcements_collection s)
             \<and> delete_announcement aid u s = (Inr r, s')"
  show "delete_announcement aid u s' =
          (Inl (HTTPException 404 ''Announcement not found''), s')"
  proof (cases rule: delete_announcement_cases [of u s aid])
    case (ok oid)
    with a have s': "s' = s\<lparr>announcements_collection :=
                              snd (delete_one (PObjectId oid) (announcements_collection s))\<rparr>"
      by simp
    then have "teacher_exists u s'" using assms by (simp add: teacher_exists_def)
    moreover have "find_one (PObjectId oid) (announcements_collection s') = None"
      using a s' by (simp add: delete_one_gone)
    ultimately show ?thesis using ok(2) by (simp add: delete_not_found)
  qed (use a in simp_all)
qed (use assms in \<open>simp_all add: update_invalid_id delete_invalid_id update_not_found delete_not_found\<close>)

theorem invalid_id_and_not_found_witness:
  "teacher_exists ''t1'' example_db
   \<and> ObjectId ''not-an-id'' = None
   \<and> update_announcement ''not-an-id'' ''M'' ''2099-01-01'' ''t1'' None example_db
       = (Inl (HTTPException 400 ''Invalid announcement ID''), example_db)
   \<and> delete_announcement ''not-an-id'' ''t1'' example_db
       = (Inl (HTTPException 400 ''Invalid announcement ID''), example_db)
   \<and> ObjectId aid_C = Some oid_C
   \<and> find_one (PObjectId oid_C) (announcements_collection example_db) = None
   \<and> update_announcement aid_C ''M'' ''2099-01-01'' ''t1'' None example_db
       = (Inl (HTTPException 404 ''Announcement not found''), example_db)
   \<and> delete_announcement aid_C ''t1'' example_db
       = (Inl (HTTPException 404 ''Announcement not found''), example_db)
   \<and> unique_ids (announcements_collection example_db)
   \<and> delete_announcement aid_A ''t1'' example_db
       = (Inr [(''message'', PStr ''Announcement deleted successfully'')],
          example_db\<lparr>announcements_collection := [ann_B]\<rparr>)
   \<and> delete_announcement aid_A ''t1'' (example_db\<lparr>announcements_collection := [ann_B]\<rparr>)
       = (Inl (HTTPException 404 ''Announcement not found''),
          example_db\<lparr>announcements_collection := [ann_B]\<rparr>)"
proof -
  have f: "find_one (PObjectId oid_A) (announcements_collection example_db) \<noteq> None"
    by (simp add: find_one_oid_A)
  have d: "delete_announcement aid_A ''t1'' example_db
             = (Inr [(''message'', PStr ''Announcement deleted successfully'')],
                example_db\<lparr>announcements_collection := [ann_B]\<rparr>)"
    using delete_ok [OF teacher_t1 ObjectId_aid_A f]
    by (simp add: example_db_def ann_A_def)
  show ?thesis
    using invalid_id_and_not_found [OF teacher_t1, of "''not-an-id''" "''M''" "''2099-01-01''" None]
      invalid_id_and_not_found [OF teacher_t1, of aid_C "''M''" "''2099-01-01''" None]
      invalid_id_and_not_found [OF teacher_t1, of aid_A "''M''" "''2099-01-01''" None]
      teacher_t1 ObjectId_malformed ObjectId_aid_C find_one_oid_C unique_ids_example d
    by simp
qed

subsection \<open>The empty start date\<close>



end
